theory Spec2Isabelle
  imports Main
begin

section \<open>The Optional container of optional.go\<close>

text \<open>
  \<^verbatim>\<open>type Optional[T any] struct { value T; present bool }\<close>

  The struct is a record with the same two fields. Go gives every type \<open>T\<close> a zero
  value; the functions that build an empty Optional (\<^verbatim>\<open>Optional[T]{present: false}\<close>)
  take that zero value as their first argument \<open>zero\<close>.
\<close>

record 'a Optional =
  "value" :: 'a
  present :: bool

text \<open>A Go panic carries the value handed to \<^verbatim>\<open>panic\<close>; here always a string.\<close>

datatype panic = Panic string

subsection \<open>Construction and inspection\<close>

definition Some_opt :: "'a \<Rightarrow> 'a Optional" where
  "Some_opt v = \<lparr>value = v, present = True\<rparr>"

definition None_opt :: "'a \<Rightarrow> 'a Optional" where
  "None_opt zero = \<lparr>value = zero, present = False\<rparr>"

definition IsPresent :: "'a Optional \<Rightarrow> bool" where
  "IsPresent o' = present o'"

definition IsEmpty :: "'a Optional \<Rightarrow> bool" where
  "IsEmpty o' = (\<not> present o')"

definition Get :: "'a Optional \<Rightarrow> panic + 'a" where
  "Get o' =
     (if \<not> present o' then Inl (Panic ''called Get() on empty Optional'')
      else Inr (value o'))"

definition OrElsePanic :: "'a Optional \<Rightarrow> string \<Rightarrow> panic + 'a" where
  "OrElsePanic o' message =
     (if \<not> present o' then Inl (Panic message)
      else Inr (value o'))"

subsection \<open>Equality and display\<close>

text \<open>
  \<^verbatim>\<open>fmt.Sprintf("%v", x)\<close> belongs to Go's standard library. It is the parameter
  \<open>sprintf_v\<close>: the text that the verb \<^verbatim>\<open>%v\<close> prints for a value of the element type.
  \<^verbatim>\<open>fmt.Sprintf("Some(%v)", x)\<close> prints the same text between \<^verbatim>\<open>Some(\<close> and \<^verbatim>\<open>)\<close>.
\<close>

definition Equals :: "('a \<Rightarrow> string) \<Rightarrow> 'a Optional \<Rightarrow> 'a Optional \<Rightarrow> bool" where
  "Equals sprintf_v o' other =
     (if present o' \<noteq> present other then False
      else if \<not> present o' then True
      else sprintf_v (value o') = sprintf_v (value other))"

definition String :: "('a \<Rightarrow> string) \<Rightarrow> 'a Optional \<Rightarrow> string" where
  "String sprintf_v o' =
     (if present o' then ''Some('' @ sprintf_v (value o') @ '')''
      else ''None'')"

subsection \<open>Combinators\<close>

text \<open>
  A Go callback may have effects (the tests count calls through a captured variable).
  A callback is therefore a function on an explicit state \<open>'s\<close>: it takes the state
  before the call and returns its result with the state after. A combinator that does
  not call its callback returns the state it was given.
\<close>

definition Zip ::
  "'r \<Rightarrow> 'a Optional \<Rightarrow> 'b Optional \<Rightarrow> ('a \<Rightarrow> 'b \<Rightarrow> 's \<Rightarrow> 'r \<times> 's) \<Rightarrow> 's \<Rightarrow> 'r Optional \<times> 's" where
  "Zip zero opt1 opt2 combiner s =
     (if present opt1 \<and> present opt2
      then (case combiner (value opt1) (value opt2) s of (r, s') \<Rightarrow> (Some_opt r, s'))
      else (None_opt zero, s))"

definition FlatMap ::
  "'u \<Rightarrow> 'a Optional \<Rightarrow> ('a \<Rightarrow> 's \<Rightarrow> 'u Optional \<times> 's) \<Rightarrow> 's \<Rightarrow> 'u Optional \<times> 's" where
  "FlatMap zero opt mapper s =
     (if present opt then mapper (value opt) s
      else (None_opt zero, s))"

text \<open>\<^verbatim>\<open>o.present && predicate(o.value)\<close>: Go's \<^verbatim>\<open>&&\<close> evaluates its right operand only
  when the left one is true.\<close>

definition Filter ::
  "'a \<Rightarrow> 'a Optional \<Rightarrow> ('a \<Rightarrow> 's \<Rightarrow> bool \<times> 's) \<Rightarrow> 's \<Rightarrow> 'a Optional \<times> 's" where
  "Filter zero o' predicate s =
     (if present o'
      then (case predicate (value o') s of (b, s') \<Rightarrow>
              if b then (o', s') else (None_opt zero, s'))
      else (None_opt zero, s))"

subsection \<open>JSON\<close>

text \<open>
  \<^verbatim>\<open>json.Marshal\<close> and \<^verbatim>\<open>json.Unmarshal\<close> belong to Go's standard library. They are
  the parameters \<open>json_Marshal\<close> (a value to its bytes, or an error) and
  \<open>json_Unmarshal\<close> (bytes to the value decoded into a fresh zero-valued variable, or
  the parser's error); \<open>'e\<close> is the type of their errors.

  \<open>MarshalJSON\<close> returns the bytes or the error. \<open>UnmarshalJSON\<close> writes through its
  pointer receiver: it takes the receiver's state before the call and returns the
  error (\<open>None\<close> for Go's \<^verbatim>\<open>nil\<close>) with the receiver's state after.
\<close>

definition MarshalJSON :: "('a \<Rightarrow> 'e + string) \<Rightarrow> 'a Optional \<Rightarrow> 'e + string" where
  "MarshalJSON json_Marshal o' =
     (if present o' then json_Marshal (value o')
      else Inr ''null'')"

definition UnmarshalJSON ::
  "(string \<Rightarrow> 'e + 'a) \<Rightarrow> 'a Optional \<Rightarrow> string \<Rightarrow> 'e option \<times> 'a Optional" where
  "UnmarshalJSON json_Unmarshal o' data =
     (if data = ''null'' then (None, o'\<lparr>present := False\<rparr>)
      else (case json_Unmarshal data of
              Inl err \<Rightarrow> (Some err, o')
            | Inr v \<Rightarrow> (None, o'\<lparr>value := v, present := True\<rparr>)))"

subsection \<open>Instances of the library parameters\<close>

text \<open>
  The theorems below hold for every \<open>sprintf_v\<close>, \<open>json_Marshal\<close> and \<open>json_Unmarshal\<close>.
  To run the functions on concrete inputs, the parameters are given for three element
  types, as Go's \<^verbatim>\<open>fmt\<close> and \<^verbatim>\<open>encoding/json\<close> behave on them.

  \<^bold>\<open>bool.\<close> \<^verbatim>\<open>%v\<close> prints \<^verbatim>\<open>true\<close> or \<^verbatim>\<open>false\<close>, and so does \<^verbatim>\<open>json.Marshal\<close>.
  \<^verbatim>\<open>json.Unmarshal\<close> skips JSON whitespace around the value, decodes the two
  literals, leaves the (zero) variable as it is on \<^verbatim>\<open>null\<close>, and returns an error on
  anything else (a syntax error or a type error: the model keeps the rejected bytes as
  the error's detail and does not tell the two apart).
\<close>

datatype json_error = DecodeError string

definition Sprintf_v_bool :: "bool \<Rightarrow> string" where
  "Sprintf_v_bool b = (if b then ''true'' else ''false'')"

definition json_space :: "char \<Rightarrow> bool" where
  "json_space c = (c = CHR '' '' \<or> c = CHR 0x09 \<or> c = CHR 0x0A \<or> c = CHR 0x0D)"

definition json_trim :: "string \<Rightarrow> string" where
  "json_trim data = rev (dropWhile json_space (rev (dropWhile json_space data)))"

definition json_Marshal_bool :: "bool \<Rightarrow> json_error + string" where
  "json_Marshal_bool b = Inr (if b then ''true'' else ''false'')"

definition json_Unmarshal_bool :: "string \<Rightarrow> json_error + bool" where
  "json_Unmarshal_bool data =
     (let lit = json_trim data in
      if lit = ''true'' then Inr True
      else if lit = ''false'' then Inr False
      else if lit = ''null'' then Inr False
      else Inl (DecodeError data))"

text \<open>
  \<^bold>\<open>*bool.\<close> A pointer is nil, or has an address and a pointee; the address is kept as
  the text \<^verbatim>\<open>%v\<close> prints for it. \<^verbatim>\<open>json.Marshal\<close> encodes nil as \<^verbatim>\<open>null\<close> and any other
  pointer as its pointee. \<^verbatim>\<open>json.Unmarshal\<close> sets the pointer to nil on \<^verbatim>\<open>null\<close> and
  otherwise decodes into a newly allocated bool, whose address is the argument
  \<open>fresh\<close>.
\<close>

datatype boolptr = NilPtr | Ptr string bool

definition Sprintf_v_boolptr :: "boolptr \<Rightarrow> string" where
  "Sprintf_v_boolptr p = (case p of NilPtr \<Rightarrow> ''<nil>'' | Ptr addr b \<Rightarrow> addr)"

definition json_Marshal_boolptr :: "boolptr \<Rightarrow> json_error + string" where
  "json_Marshal_boolptr p = (case p of NilPtr \<Rightarrow> Inr ''null'' | Ptr addr b \<Rightarrow> json_Marshal_bool b)"

definition json_Unmarshal_boolptr :: "string \<Rightarrow> string \<Rightarrow> json_error + boolptr" where
  "json_Unmarshal_boolptr fresh data =
     (if json_trim data = ''null'' then Inr NilPtr
      else (case json_Unmarshal_bool data of
              Inl err \<Rightarrow> Inl err
            | Inr b \<Rightarrow> Inr (Ptr fresh b)))"

text \<open>
  \<^bold>\<open>[]string.\<close> \<^verbatim>\<open>%v\<close> prints the elements separated by single spaces, between
  square brackets.
\<close>

fun join_space :: "string list \<Rightarrow> string" where
  "join_space [] = []"
| "join_space [x] = x"
| "join_space (x # y # ys) = x @ '' '' @ join_space (y # ys)"

definition Sprintf_v_strings :: "string list \<Rightarrow> string" where
  "Sprintf_v_strings xs = ''['' @ join_space xs @ '']''"

section \<open>Inspection: Get and OrElsePanic\<close>

text \<open>
  Claim C4. On a present Optional, \<open>Get\<close> returns the contained value, and so does
  \<open>OrElsePanic\<close>. On an absent Optional, \<open>Get\<close> panics with its fixed message, and
  \<open>OrElsePanic\<close> panics with exactly the message its caller supplied.
\<close>

theorem Get_OrElsePanic_value_or_panic:
  "(present o' \<longrightarrow>
      Get o' = Inr (value o') \<and> OrElsePanic o' message = Get o') \<and>
   (\<not> present o' \<longrightarrow>
      Get o' = Inl (Panic ''called Get() on empty Optional'') \<and>
      OrElsePanic o' message = Inl (Panic message))"
  by (simp add: Get_def OrElsePanic_def)

theorem Get_OrElsePanic_value_or_panic_witness:
  "Get (Some_opt (42::int)) = Inr 42 \<and>
   OrElsePanic (Some_opt (42::int)) ''should not panic'' = Inr 42 \<and>
   Get (None_opt (0::int)) = Inl (Panic ''called Get() on empty Optional'') \<and>
   OrElsePanic (None_opt (0::int)) ''custom panic message'' = Inl (Panic ''custom panic message'')"
  using Get_OrElsePanic_value_or_panic [of "Some_opt (42::int)" "''should not panic''"]
    Get_OrElsePanic_value_or_panic [of "None_opt (0::int)" "''custom panic message''"]
  by (simp add: Some_opt_def None_opt_def)

section \<open>Combinators\<close>

text \<open>
  Claim C5. \<open>Zip\<close> is present exactly when both inputs are. Then it holds the
  combiner's result on the two values, and the combiner has run once (the state after
  is the state the one call leaves). When an input is absent, the result is the empty
  Optional, the state is the one given (the combiner has not run), and the result is
  the same for every combiner.
\<close>

theorem Zip_present_iff_both:
  "(present (fst (Zip zero a b f s)) \<longleftrightarrow> present a \<and> present b) \<and>
   (present a \<and> present b \<longrightarrow>
      Zip zero a b f s =
        (Some_opt (fst (f (value a) (value b) s)), snd (f (value a) (value b) s))) \<and>
   (\<not> (present a \<and> present b) \<longrightarrow>
      Zip zero a b f s = (None_opt zero, s) \<and> Zip zero a b g s = Zip zero a b f s)"
  by (simp add: Zip_def Some_opt_def None_opt_def split: prod.split)

theorem Zip_present_iff_both_witness:
  "Zip (0::int, '''') (Some_opt (42::int)) (Some_opt ''hello'') (\<lambda>x y n. ((x, y), Suc n)) (0::nat)
     = (Some_opt (42, ''hello''), 1) \<and>
   Zip (0::int, '''') (Some_opt (42::int)) (None_opt '''') (\<lambda>x y n. ((x, y), Suc n)) (0::nat)
     = (None_opt (0, ''''), 0) \<and>
   Zip (0::int, '''') (None_opt (0::int)) (Some_opt ''hello'') (\<lambda>x y n. ((x + 1, y), n + 2)) (0::nat)
     = (None_opt (0, ''''), 0)"
  using Zip_present_iff_both
      [of "(0::int, '''')" "Some_opt (42::int)" "Some_opt ''hello''" "\<lambda>x y n. ((x, y), Suc n)"
          "0::nat" "\<lambda>x y n. ((x + 1, y), n + 2)"]
    Zip_present_iff_both
      [of "(0::int, '''')" "Some_opt (42::int)" "None_opt ''''" "\<lambda>x y n. ((x, y), Suc n)"
          "0::nat" "\<lambda>x y n. ((x + 1, y), n + 2)"]
    Zip_present_iff_both
      [of "(0::int, '''')" "None_opt (0::int)" "Some_opt ''hello''" "\<lambda>x y n. ((x, y), Suc n)"
          "0::nat" "\<lambda>x y n. ((x + 1, y), n + 2)"]
  by (auto simp: Some_opt_def None_opt_def)

text \<open>
  Claim C6. \<open>FlatMap\<close> on \<open>Some v\<close> is the mapper's own result on \<open>v\<close>, Optional and
  state, with nothing wrapped around it. On an absent input it returns the empty
  Optional and the state it was given, whatever the mapper.
\<close>

theorem FlatMap_passes_mapper_through:
  "FlatMap zero (Some_opt v) f s = f v s \<and>
   (present opt \<longrightarrow> FlatMap zero opt f s = f (value opt) s) \<and>
   (\<not> present opt \<longrightarrow>
      FlatMap zero opt f s = (None_opt zero, s) \<and> FlatMap zero opt g s = FlatMap zero opt f s)"
  by (simp add: FlatMap_def Some_opt_def)

theorem FlatMap_passes_mapper_through_witness:
  "FlatMap '''' (Some_opt (42::int))
       (\<lambda>x n. (if x > 0 then Some_opt ''positive'' else None_opt '''', Suc n)) (0::nat)
     = (Some_opt ''positive'', 1) \<and>
   FlatMap '''' (Some_opt (- 42::int))
       (\<lambda>x n. (if x > 0 then Some_opt ''positive'' else None_opt '''', Suc n)) (0::nat)
     = (None_opt '''', 1) \<and>
   FlatMap '''' (None_opt (0::int))
       (\<lambda>x n. (if x > 0 then Some_opt ''positive'' else None_opt '''', Suc n)) (0::nat)
     = (None_opt '''', 0) \<and>
   FlatMap '''' (None_opt (0::int)) (\<lambda>x n. (Some_opt ''value'', n + 2)) (0::nat)
     = (None_opt '''', 0)"
  using FlatMap_passes_mapper_through
      [of "''''" "42::int" "\<lambda>x n. (if x > 0 then Some_opt ''positive'' else None_opt '''', Suc n)"
          "0::nat" "Some_opt (- 42::int)" "\<lambda>x n. (Some_opt ''value'', n + 2)"]
    FlatMap_passes_mapper_through
      [of "''''" "42::int" "\<lambda>x n. (if x > 0 then Some_opt ''positive'' else None_opt '''', Suc n)"
          "0::nat" "None_opt (0::int)" "\<lambda>x n. (Some_opt ''value'', n + 2)"]
  by (simp add: Some_opt_def None_opt_def)

text \<open>
  Claim C7. \<open>Filter\<close> returns the receiver itself (same flag, same value) when it is
  present and the predicate holds of its value, and the empty Optional when it is
  present and the predicate fails; in both cases the predicate has run once. On an
  absent receiver it returns the empty Optional and the state it was given (the
  predicate has not run), whatever the predicate.
\<close>

theorem Filter_keeps_or_empties:
  "(present o' \<and> fst (p (value o') s) \<longrightarrow>
      Filter zero o' p s = (o', snd (p (value o') s))) \<and>
   (present o' \<and> \<not> fst (p (value o') s) \<longrightarrow>
      Filter zero o' p s = (None_opt zero, snd (p (value o') s))) \<and>
   (\<not> present o' \<longrightarrow>
      Filter zero o' p s = (None_opt zero, s) \<and> Filter zero o' q s = Filter zero o' p s)"
  by (simp add: Filter_def split: prod.split)

theorem Filter_keeps_or_empties_witness:
  "Filter (0::int) (Some_opt 84) (\<lambda>x n. (x > 50, Suc n)) (0::nat) = (Some_opt 84, 1) \<and>
   Filter (0::int) (Some_opt 42) (\<lambda>x n. (x > 50, Suc n)) (0::nat) = (None_opt 0, 1) \<and>
   Filter (0::int) (None_opt 0) (\<lambda>x n. (x > 50, Suc n)) (0::nat) = (None_opt 0, 0) \<and>
   Filter (0::int) (None_opt 0) (\<lambda>x n. (True, n + 2)) (0::nat) = (None_opt 0, 0)"
  using Filter_keeps_or_empties
      [of "Some_opt 84" "\<lambda>x n. (x > 50, Suc n)" "0::nat" "0::int" "\<lambda>x n. (True, n + 2)"]
    Filter_keeps_or_empties
      [of "Some_opt 42" "\<lambda>x n. (x > 50, Suc n)" "0::nat" "0::int" "\<lambda>x n. (True, n + 2)"]
    Filter_keeps_or_empties
      [of "None_opt 0" "\<lambda>x n. (x > 50, Suc n)" "0::nat" "0::int" "\<lambda>x n. (True, n + 2)"]
  by (simp add: Some_opt_def None_opt_def)

section \<open>Equality and display\<close>

lemma inj_Sprintf_v_bool: "inj Sprintf_v_bool"
  by (rule injI) (simp add: Sprintf_v_bool_def split: if_splits)

text \<open>
  Claim C8. Two absent Optionals are equal; an absent and a present one are not; two
  present ones are equal exactly when the texts \<^verbatim>\<open>%v\<close> prints for their values are
  equal. Equal values are therefore always equal Optionals, and where the printed text
  determines the value (\<open>sprintf_v\<close> injective), \<open>Equals\<close> on present Optionals is
  equality of the values.
\<close>

theorem Equals_by_presence_and_text:
  "(\<not> present a \<and> \<not> present b \<longrightarrow> Equals sprintf_v a b) \<and>
   (present a \<noteq> present b \<longrightarrow> \<not> Equals sprintf_v a b) \<and>
   (present a \<and> present b \<longrightarrow>
      Equals sprintf_v a b = (sprintf_v (value a) = sprintf_v (value b)) \<and>
      (value a = value b \<longrightarrow> Equals sprintf_v a b) \<and>
      (inj sprintf_v \<longrightarrow> Equals sprintf_v a b = (value a = value b)))"
  by (auto simp: Equals_def dest: injD)

theorem Equals_by_presence_and_text_witness:
  "Equals Sprintf_v_bool (None_opt False) (None_opt False) \<and>
   \<not> Equals Sprintf_v_bool (Some_opt True) (None_opt False) \<and>
   \<not> Equals Sprintf_v_bool (None_opt False) (Some_opt False) \<and>
   Equals Sprintf_v_bool (Some_opt True) (Some_opt True) \<and>
   \<not> Equals Sprintf_v_bool (Some_opt True) (Some_opt False)"
  using Equals_by_presence_and_text [of "None_opt False" "None_opt False" Sprintf_v_bool]
    Equals_by_presence_and_text [of "Some_opt True" "None_opt False" Sprintf_v_bool]
    Equals_by_presence_and_text [of "None_opt False" "Some_opt False" Sprintf_v_bool]
    Equals_by_presence_and_text [of "Some_opt True" "Some_opt True" Sprintf_v_bool]
    Equals_by_presence_and_text [of "Some_opt True" "Some_opt False" Sprintf_v_bool]
    inj_Sprintf_v_bool
  by (simp add: Sprintf_v_bool_def Some_opt_def None_opt_def)

text \<open>
  Claim C10. \<open>Equals\<close> holds exactly when the two \<open>String\<close> renderings are the same
  text. It is reflexive, symmetric and transitive, and two different values that print
  alike are equal as present Optionals.
\<close>

theorem Equals_iff_String_eq:
  "(Equals sprintf_v a b \<longleftrightarrow> String sprintf_v a = String sprintf_v b) \<and>
   Equals sprintf_v a a \<and>
   (Equals sprintf_v a b \<longrightarrow> Equals sprintf_v b a) \<and>
   (Equals sprintf_v a b \<and> Equals sprintf_v b c \<longrightarrow> Equals sprintf_v a c) \<and>
   (v \<noteq> w \<and> sprintf_v v = sprintf_v w \<longrightarrow>
      Equals sprintf_v (Some_opt v) (Some_opt w))"
  by (auto simp: Equals_def String_def Some_opt_def split: if_splits)

theorem Equals_iff_String_eq_witness:
  "[''a b''] \<noteq> [''a'', ''b''] \<and>
   Sprintf_v_strings [''a b''] = Sprintf_v_strings [''a'', ''b''] \<and>
   Equals Sprintf_v_strings (Some_opt [''a b'']) (Some_opt [''a'', ''b'']) \<and>
   Equals Sprintf_v_strings (Some_opt [''a'', ''b'']) (Some_opt [''a b'']) \<and>
   String Sprintf_v_strings (Some_opt [''a b'']) = ''Some([a b])'' \<and>
   String Sprintf_v_strings (Some_opt [''a'', ''b'']) = ''Some([a b])'' \<and>
   \<not> Equals Sprintf_v_strings (Some_opt [''a b'']) (None_opt []) \<and>
   String Sprintf_v_strings (None_opt []) = ''None''"
  using Equals_iff_String_eq
      [of Sprintf_v_strings "Some_opt [''a b'']" "Some_opt [''a'', ''b'']" "Some_opt [''a b'']"
          "[''a b'']" "[''a'', ''b'']"]
    Equals_iff_String_eq
      [of Sprintf_v_strings "Some_opt [''a'', ''b'']" "Some_opt [''a b'']" "Some_opt [''a'', ''b'']"
          "[''a b'']" "[''a'', ''b'']"]
    Equals_iff_String_eq
      [of Sprintf_v_strings "Some_opt [''a b'']" "None_opt []" "Some_opt [''a b'']"
          "[''a b'']" "[''a'', ''b'']"]
  by (simp add: Sprintf_v_strings_def String_def Some_opt_def None_opt_def)

section \<open>JSON\<close>

text \<open>
  Claim C1, as stated, fails. A present value that \<^verbatim>\<open>json.Marshal\<close> encodes as the
  bytes \<^verbatim>\<open>null\<close> is representable (the nil \<^verbatim>\<open>*bool\<close> encodes as \<^verbatim>\<open>null\<close>, and
  \<^verbatim>\<open>json.Unmarshal\<close> decodes \<^verbatim>\<open>null\<close> back to the nil pointer), but \<open>UnmarshalJSON\<close>
  tests for those bytes first and makes the target absent: the result is not
  \<open>Equals\<close> to \<open>Some nil\<close>.
\<close>

theorem roundtrip_Some_nil_not_Equals:
  "json_Marshal_boolptr NilPtr = Inr ''null'' \<and>
   json_Unmarshal_boolptr ''0xc000012120'' ''null'' = Inr NilPtr \<and>
   MarshalJSON json_Marshal_boolptr (Some_opt NilPtr) = Inr ''null'' \<and>
   fst (UnmarshalJSON (json_Unmarshal_boolptr ''0xc000012120'') (None_opt NilPtr) ''null'') = None \<and>
   \<not> Equals Sprintf_v_boolptr
       (snd (UnmarshalJSON (json_Unmarshal_boolptr ''0xc000012120'') (None_opt NilPtr) ''null''))
       (Some_opt NilPtr)"
  by (simp add: json_Marshal_boolptr_def json_Unmarshal_boolptr_def json_trim_def json_space_def
      MarshalJSON_def UnmarshalJSON_def Equals_def Some_opt_def None_opt_def)

text \<open>
  Claim C1, amended. Let \<open>v\<close> be a value that \<^verbatim>\<open>json.Marshal\<close> encodes without error
  as bytes \<open>data\<close> other than \<^verbatim>\<open>null\<close>, and that \<^verbatim>\<open>json.Unmarshal\<close> decodes from \<open>data\<close>
  again. Then \<open>MarshalJSON\<close> of \<open>Some v\<close> is \<open>data\<close>, and \<open>UnmarshalJSON\<close> of \<open>data\<close>
  into any target returns no error and leaves the target \<open>Some v\<close>, which
  \<open>Equals (Some v)\<close>. \<open>MarshalJSON\<close> of the empty Optional is \<^verbatim>\<open>null\<close>, and
  \<open>UnmarshalJSON\<close> of \<^verbatim>\<open>null\<close> into any target returns no error and leaves it empty.
\<close>

theorem roundtrip_non_null:
  assumes "json_Marshal v = Inr data"
    and "data \<noteq> ''null''"
    and "json_Unmarshal data = Inr v"
  shows "MarshalJSON json_Marshal (Some_opt v) = Inr data \<and>
    UnmarshalJSON json_Unmarshal target data = (None, Some_opt v) \<and>
    Equals sprintf_v (snd (UnmarshalJSON json_Unmarshal target data)) (Some_opt v) \<and>
    MarshalJSON json_Marshal (None_opt zero) = Inr ''null'' \<and>
    fst (UnmarshalJSON json_Unmarshal target ''null'') = None \<and>
    IsEmpty (snd (UnmarshalJSON json_Unmarshal target ''null''))"
  using assms
  by (simp add: MarshalJSON_def UnmarshalJSON_def Equals_def IsEmpty_def Some_opt_def None_opt_def)

theorem roundtrip_non_null_witness:
  "json_Marshal_bool True = Inr ''true'' \<and> ''true'' \<noteq> ''null'' \<and>
   json_Unmarshal_bool ''true'' = Inr True \<and>
   MarshalJSON json_Marshal_bool (Some_opt True) = Inr ''true'' \<and>
   UnmarshalJSON json_Unmarshal_bool (None_opt False) ''true'' = (None, Some_opt True) \<and>
   Equals Sprintf_v_bool (snd (UnmarshalJSON json_Unmarshal_bool (None_opt False) ''true''))
     (Some_opt True) \<and>
   MarshalJSON json_Marshal_bool (None_opt False) = Inr ''null'' \<and>
   IsEmpty (snd (UnmarshalJSON json_Unmarshal_bool (None_opt False) ''null''))"
proof -
  have m: "json_Marshal_bool True = Inr ''true''"
    by (simp add: json_Marshal_bool_def)
  have n: "''true'' \<noteq> ''null''"
    by simp
  have u: "json_Unmarshal_bool ''true'' = Inr True"
    by (simp add: json_Unmarshal_bool_def json_trim_def json_space_def)
  show ?thesis
    using m n u
      roundtrip_non_null
        [where json_Marshal = json_Marshal_bool and json_Unmarshal = json_Unmarshal_bool
          and v = True and data = "''true''" and target = "None_opt False"
          and sprintf_v = Sprintf_v_bool and zero = False, OF m n u]
    by blast
qed

text \<open>
  Claim C2, as stated, fails. \<open>UnmarshalJSON\<close> of \<^verbatim>\<open>null\<close> assigns the presence flag
  only: after it, the value field of a target that was \<open>Some true\<close> still holds
  \<open>true\<close>.
\<close>

theorem UnmarshalJSON_null_keeps_value_field:
  "\<not> (\<not> present (snd (UnmarshalJSON json_Unmarshal_bool (Some_opt True) ''null'')) \<and>
       value (snd (UnmarshalJSON json_Unmarshal_bool (Some_opt True) ''null''))
         \<noteq> value (Some_opt True))"
  by (simp add: UnmarshalJSON_def Some_opt_def)

text \<open>
  Claim C2, amended. For every target, in any prior state, \<open>UnmarshalJSON\<close> of \<^verbatim>\<open>null\<close>
  returns no error and sets the presence flag to false, leaving the value field as it
  was. The target is then empty and the old value is out of reach of \<open>Get\<close>, which
  panics.
\<close>

theorem UnmarshalJSON_null_makes_absent:
  "UnmarshalJSON json_Unmarshal o' ''null'' = (None, o'\<lparr>present := False\<rparr>) \<and>
   \<not> present (snd (UnmarshalJSON json_Unmarshal o' ''null'')) \<and>
   value (snd (UnmarshalJSON json_Unmarshal o' ''null'')) = value o' \<and>
   IsEmpty (snd (UnmarshalJSON json_Unmarshal o' ''null'')) \<and>
   Get (snd (UnmarshalJSON json_Unmarshal o' ''null''))
     = Inl (Panic ''called Get() on empty Optional'')"
  by (simp add: UnmarshalJSON_def IsEmpty_def Get_def)

text \<open>
  Claim C3. When the bytes are not \<^verbatim>\<open>null\<close> and \<^verbatim>\<open>json.Unmarshal\<close> rejects them with
  an error, \<open>UnmarshalJSON\<close> returns that very error, and it does not set the presence
  flag: a target that was not present is not present afterwards.
\<close>

theorem UnmarshalJSON_returns_parser_error:
  assumes "data \<noteq> ''null''"
    and "json_Unmarshal data = Inl err"
  shows "fst (UnmarshalJSON json_Unmarshal o' data) = Some err \<and>
    present (snd (UnmarshalJSON json_Unmarshal o' data)) = present o' \<and>
    IsPresent (snd (UnmarshalJSON json_Unmarshal (None_opt zero) data)) = False"
  using assms by (simp add: UnmarshalJSON_def IsPresent_def None_opt_def)

theorem UnmarshalJSON_returns_parser_error_witness:
  "''invalid'' \<noteq> ''null'' \<and>
   json_Unmarshal_bool ''invalid'' = Inl (DecodeError ''invalid'') \<and>
   fst (UnmarshalJSON json_Unmarshal_bool (None_opt False) ''invalid'')
     = Some (DecodeError ''invalid'') \<and>
   \<not> IsPresent (snd (UnmarshalJSON json_Unmarshal_bool (None_opt False) ''invalid''))"
proof -
  have n: "''invalid'' \<noteq> ''null''"
    by simp
  have u: "json_Unmarshal_bool ''invalid'' = Inl (DecodeError ''invalid'')"
    by (simp add: json_Unmarshal_bool_def json_trim_def json_space_def)
  show ?thesis
    using n u
      UnmarshalJSON_returns_parser_error
        [where json_Unmarshal = json_Unmarshal_bool and data = "''invalid''"
          and err = "DecodeError ''invalid''" and o' = "None_opt False" and zero = False,
          OF n u]
    by blast
qed

text \<open>
  Claim C9. When the bytes are not \<^verbatim>\<open>null\<close> and \<^verbatim>\<open>json.Unmarshal\<close> rejects them,
  \<open>UnmarshalJSON\<close> returns the parse error and the receiver is exactly as before the
  call: same presence flag, same value.
\<close>

theorem UnmarshalJSON_failure_keeps_receiver:
  assumes "data \<noteq> ''null''"
    and "json_Unmarshal data = Inl err"
  shows "UnmarshalJSON json_Unmarshal o' data = (Some err, o')"
  using assms by (simp add: UnmarshalJSON_def)

theorem UnmarshalJSON_failure_keeps_receiver_witness:
  "''invalid'' \<noteq> ''null'' \<and>
   json_Unmarshal_bool ''invalid'' = Inl (DecodeError ''invalid'') \<and>
   UnmarshalJSON json_Unmarshal_bool (Some_opt True) ''invalid''
     = (Some (DecodeError ''invalid''), Some_opt True) \<and>
   UnmarshalJSON json_Unmarshal_bool (None_opt False) ''invalid''
     = (Some (DecodeError ''invalid''), None_opt False)"
proof -
  have n: "''invalid'' \<noteq> ''null''"
    by simp
  have u: "json_Unmarshal_bool ''invalid'' = Inl (DecodeError ''invalid'')"
    by (simp add: json_Unmarshal_bool_def json_trim_def json_space_def)
  show ?thesis
    using n u
      UnmarshalJSON_failure_keeps_receiver
        [where json_Unmarshal = json_Unmarshal_bool and data = "''invalid''"
          and err = "DecodeError ''invalid''" and o' = "Some_opt True", OF n u]
      UnmarshalJSON_failure_keeps_receiver
        [where json_Unmarshal = json_Unmarshal_bool and data = "''invalid''"
          and err = "DecodeError ''invalid''" and o' = "None_opt False", OF n u]
    by blast
qed

end
